theory Spec2Isabelle
  imports Complex_Main
begin

section \<open>Cost-minimizing rebalancer: data model\<close>

text \<open>
  The optimization notebook works on three inputs: the current holdings \<open>w\<close>, the
  expected returns \<open>a_bar\<close> and the return floor \<open>r_min\<close>. Floating-point numbers are
  modelled as exact reals, so a non-finite \<open>r_min\<close> has no counterpart here.
\<close>

record PortfolioState =
  holdings :: "real list"
  expected_returns :: "real list"
  min_return :: real

text \<open>
  What the caller sees after \<open>problem.solve()\<close>: the value of \<open>x\<close> when the solver
  status is optimal, the statuses infeasible and unbounded, a \<open>ValueError\<close> raised while
  the variable and the constraint expressions are built, and a solver failure (which a
  solver that meets its contract on exact reals never reports).
\<close>

datatype outcome = TradeVector "real list" | Infeasible | Unbounded | ValueError | SolverError

text \<open>The validity condition the specification puts on a PortfolioState.\<close>

definition valid :: "PortfolioState \<Rightarrow> bool" where
  "valid s \<longleftrightarrow>
     length (holdings s) = length (expected_returns s) \<and>
     1 \<le> length (holdings s) \<and>
     (\<forall>h \<in> set (holdings s). 0 \<le> h)"

section \<open>Problem construction\<close>

text \<open>\<open>def phi(x): return cp.sum(cp.abs(x))\<close>\<close>

definition phi :: "real list \<Rightarrow> real" where
  "phi x = sum_list (map abs x)"

text \<open>Elementwise \<open>w + x\<close> and the product \<open>a_bar.T @ v\<close> of two vectors of one shape.\<close>

definition vadd :: "real list \<Rightarrow> real list \<Rightarrow> real list" where
  "vadd u v = map2 (+) u v"

definition dot :: "real list \<Rightarrow> real list \<Rightarrow> real" where
  "dot u v = sum_list (map2 (*) u v)"

text \<open>\<open>a_bar.T @ (w + x) / sum(w) >= r_min\<close>\<close>

definition return_floor :: "PortfolioState \<Rightarrow> real list \<Rightarrow> bool" where
  "return_floor s x \<longleftrightarrow>
     min_return s \<le> dot (expected_returns s) (vadd (holdings s) x) / sum_list (holdings s)"

text \<open>\<open>cp.sum(w + x) == cp.sum(w)\<close>\<close>

definition conservation :: "PortfolioState \<Rightarrow> real list \<Rightarrow> bool" where
  "conservation s x \<longleftrightarrow> sum_list (vadd (holdings s) x) = sum_list (holdings s)"

text \<open>
  \<open>cp.Problem(cp.Minimize(phi(x)), constraints)\<close> over \<open>x = cp.Variable(n)\<close>: the number
  of variables, the objective and the list of constraints.
\<close>

record problem =
  nvars :: nat
  objective :: "real list \<Rightarrow> real"
  constraints :: "(real list \<Rightarrow> bool) list"

definition build_problem :: "PortfolioState \<Rightarrow> problem" where
  "build_problem s =
     \<lparr> nvars = length (holdings s),
       objective = phi,
       constraints = [return_floor s, conservation s] \<rparr>"

definition feasible :: "problem \<Rightarrow> real list \<Rightarrow> bool" where
  "feasible P y \<longleftrightarrow> length y = nvars P \<and> list_all (\<lambda>c. c y) (constraints P)"

section \<open>The solver and the rebalancer\<close>

text \<open>
  The numerical solve is delegated to an external convex solver. Its contract on exact
  reals: an optimal point of the feasible set when the status is optimal, the status
  infeasible when the feasible set is empty, the status unbounded when the objective
  has no lower bound on a non-empty feasible set. An optimal point need not be unique,
  so the solve is a relation between the problem and the outcome.
\<close>

inductive solve :: "problem \<Rightarrow> outcome \<Rightarrow> bool" for P :: problem where
  solve_optimal:
    "feasible P x \<Longrightarrow> (\<And>y. feasible P y \<Longrightarrow> objective P x \<le> objective P y) \<Longrightarrow>
     solve P (TradeVector x)"
| solve_infeasible:
    "(\<And>y. \<not> feasible P y) \<Longrightarrow> solve P Infeasible"
| solve_unbounded:
    "feasible P y0 \<Longrightarrow> (\<And>b. \<exists>y. feasible P y \<and> objective P y < b) \<Longrightarrow>
     solve P Unbounded"

text \<open>
  The notebook cell as a function of the PortfolioState, with \<open>n\<close> the number of
  holdings. \<open>x = cp.Variable(n)\<close> raises a ValueError for \<open>n = 0\<close>, and building
  \<open>a_bar.T @ (w + x)\<close> raises one when \<open>a_bar\<close> and \<open>w\<close> differ in length. The cell
  runs no check of its own on its input: for every other input it builds the problem
  and calls \<open>problem.solve()\<close>.

  The return floor divides by \<open>sum(w)\<close>. For \<open>sum(w) = 0\<close> the quotient has no value
  in exact arithmetic, and HOL reads it as 0: which outcome the solve has on such an
  input is not settled here, and the characterisations of the outcome below are about
  inputs with \<open>sum(w) > 0\<close>.
\<close>

inductive Rebalancer :: "PortfolioState \<Rightarrow> outcome \<Rightarrow> bool" where
  invalid_dimension:
    "length (holdings s) = 0 \<Longrightarrow> Rebalancer s ValueError"
| shape_mismatch:
    "length (expected_returns s) \<noteq> length (holdings s) \<Longrightarrow> Rebalancer s ValueError"
| solved:
    "length (holdings s) \<noteq> 0 \<Longrightarrow> length (expected_returns s) = length (holdings s) \<Longrightarrow>
     solve (build_problem s) out \<Longrightarrow> Rebalancer s out"

text \<open>
  The cell reads \<open>w\<close>, \<open>a_bar\<close> and \<open>r_min\<close> and assigns only \<open>x\<close>, \<open>objective\<close>,
  \<open>constraints\<close>, \<open>problem\<close> and \<open>result\<close>; \<open>w + x\<close>, \<open>a_bar.T\<close> and \<open>sum(w)\<close> build
  new values. A call therefore hands back the outcome together with the caller's
  PortfolioState as it is after the call.
\<close>

inductive Rebalancer_call :: "PortfolioState \<Rightarrow> PortfolioState \<times> outcome \<Rightarrow> bool" where
  call: "Rebalancer s out \<Longrightarrow> Rebalancer_call s (s, out)"

section \<open>Quantities used in the analysis\<close>

text \<open>The shortfall of the current portfolio against the return floor.\<close>

definition shortfall :: "PortfolioState \<Rightarrow> real" where
  "shortfall s = min_return s * sum_list (holdings s) - dot (expected_returns s) (holdings s)"

text \<open>
  The trade that moves the amount \<open>t\<close> from asset \<open>j\<close> into asset \<open>i\<close> and leaves
  every other asset alone.
\<close>

definition unit_trade :: "nat \<Rightarrow> nat \<Rightarrow> nat \<Rightarrow> real \<Rightarrow> real list" where
  "unit_trade n i j t =
     map (\<lambda>k. (if k = i then t else 0) - (if k = j then t else 0)) [0..<n]"

section \<open>Example portfolios\<close>

text \<open>Two assets, a floor between the two expected returns.\<close>

definition two_asset_state :: PortfolioState where
  "two_asset_state = \<lparr> holdings = [1, 1], expected_returns = [1, 2], min_return = 7 / 4 \<rparr>"

text \<open>Three assets, two of which share the largest expected return.\<close>

definition tie_state :: PortfolioState where
  "tie_state = \<lparr> holdings = [1, 1, 1], expected_returns = [1, 2, 2], min_return = 2 \<rparr>"

text \<open>Two assets, a floor above the largest expected return.\<close>

definition short_state :: PortfolioState where
  "short_state = \<lparr> holdings = [1, 1], expected_returns = [1, 2], min_return = 3 \<rparr>"


text \<open>Two assets with one expected return, and a floor above it.\<close>

definition flat_state :: PortfolioState where
  "flat_state = \<lparr> holdings = [1, 1], expected_returns = [2, 2], min_return = 3 \<rparr>"

text \<open>Expected returns of different length than the holdings.\<close>

definition mismatched_state :: PortfolioState where
  "mismatched_state = \<lparr> holdings = [1, 1], expected_returns = [1, 2, 3], min_return = 1 \<rparr>"

text \<open>
  The notebook's data: \<open>w = [45 48 65 68 68]\<close>, \<open>a_bar\<close> as printed to eight decimals,
  \<open>r_min = 1.5\<close>.
\<close>

definition demo_state :: PortfolioState where
  "demo_state =
     \<lparr> holdings = [45, 48, 65, 68, 68],
       expected_returns =
         [184725174 / 10 ^ 8, 162356370 / 10 ^ 8, 138438171 / 10 ^ 8, 129753461 / 10 ^ 8,
          105671298 / 10 ^ 8],
       min_return = 3 / 2 \<rparr>"

text \<open>The amount moved from the fifth asset into the first: shortfall over spread.\<close>

definition demo_amount :: real where
  "demo_amount = 2986896683 / 79053876"

definition demo_trade :: "real list" where
  "demo_trade = [demo_amount, 0, 0, 0, - demo_amount]"

section \<open>Feature engine\<close>

text \<open>
  Modelled from the spec: the bid-ask bounce of the feature engine, whose code is not
  among the sources (the feature list describes it in prose only). The specification
  gives \<open>(t - b) / (a - b)\<close>, reported raw, and undefined if \<open>a == b\<close>; an undefined
  value is \<open>None\<close>.
\<close>

definition bid_ask_bounce :: "real \<Rightarrow> real \<Rightarrow> real \<Rightarrow> real option" where
  "bid_ask_bounce t b a = (if a = b then None else Some ((t - b) / (a - b)))"

text \<open>
  Modelled from the spec: the volume-weighted average price over a window of
  (price, volume) observations, whose code is not among the sources. The specification
  gives \<open>\<Sum> price_i * volume_i / \<Sum> volume_i\<close>, undefined when the volumes sum to zero.
\<close>

definition vwap :: "(real \<times> real) list \<Rightarrow> real option" where
  "vwap obs =
     (let total = sum_list (map snd obs)
      in if total = 0 then None
         else Some (sum_list (map (\<lambda>(price, volume). price * volume) obs) / total))"

text \<open>
  Modelled from the spec: the time-weighted average price over a window of
  (price, duration) observations, the duration being the time the price was in force;
  its code is not among the sources. The specification's table gives
  \<open>\<Sum> price_i * dt_i / \<Sum> dt_i\<close>, undefined for an empty window, and its testable
  properties give the price of a single observation whatever its duration, which
  settles the quotient \<open>0 / 0\<close> of a single observation of duration zero. Where the
  durations of several observations sum to zero the specification names no value: the
  quotient has a degenerate denominator, an undefined value in its error taxonomy.
\<close>

definition twap :: "(real \<times> real) list \<Rightarrow> real option" where
  "twap obs =
     (if obs = [] then None
      else let total = sum_list (map snd obs)
           in if total \<noteq> 0
              then Some (sum_list (map (\<lambda>(price, dt). price * dt) obs) / total)
              else (case obs of [(price, dt)] \<Rightarrow> Some price | _ \<Rightarrow> None))"

section \<open>Vector arithmetic\<close>

lemma phi_nonneg: "0 \<le> phi x"
  unfolding phi_def by (induction x) auto

lemma phi_replicate_zero: "phi (replicate n 0) = 0"
  unfolding phi_def by (induction n) auto

lemma sum_list_replicate_zero: "sum_list (replicate n (0::real)) = 0"
  by (induction n) auto

lemma sum_list_vadd:
  "length x = length u \<Longrightarrow> sum_list (vadd u x) = sum_list u + sum_list x"
  unfolding vadd_def by (induction x u rule: list_induct2) auto

lemma dot_vadd:
  "length u = length a \<Longrightarrow> length x = length a \<Longrightarrow>
   dot a (vadd u x) = dot a u + dot a x"
proof -
  assume "length u = length a" and "length x = length a"
  then have "length a = length u" and "length u = length x" by simp_all
  then show ?thesis
    unfolding vadd_def dot_def
    by (induction a u x rule: list_induct3) (auto simp: algebra_simps)
qed

lemma dot_replicate_zero: "dot a (replicate n 0) = 0"
proof (induction a arbitrary: n)
  case Nil
  show ?case by (simp add: dot_def)
next
  case (Cons c cs)
  show ?case
  proof (cases n)
    case 0
    then show ?thesis by (simp add: dot_def)
  next
    case (Suc k)
    then show ?thesis using Cons.IH [of k] by (simp add: dot_def)
  qed
qed

text \<open>
  The central estimate: when every coefficient lies within \<open>h\<close> of \<open>m\<close>, the product
  with a vector exceeds \<open>m\<close> times the vector's sum by at most \<open>h\<close> times its 1-norm.
\<close>

lemma dot_centered_le:
  "length a = length x \<Longrightarrow> (\<And>c. c \<in> set a \<Longrightarrow> \<bar>c - m\<bar> \<le> h) \<Longrightarrow>
   dot a x - m * sum_list x \<le> h * phi x"
proof (induction a x rule: list_induct2)
  case Nil
  show ?case by (simp add: dot_def phi_def)
next
  case (Cons c cs y ys)
  have ih: "dot cs ys - m * sum_list ys \<le> h * phi ys"
    using Cons.IH Cons.prems by simp
  have "\<bar>c - m\<bar> \<le> h" using Cons.prems by simp
  then have "\<bar>c - m\<bar> * \<bar>y\<bar> \<le> h * \<bar>y\<bar>"
    by (rule mult_right_mono) simp
  moreover have "(c - m) * y \<le> \<bar>c - m\<bar> * \<bar>y\<bar>"
    by (metis abs_ge_self abs_mult)
  ultimately have hd: "c * y - m * y \<le> h * \<bar>y\<bar>"
    by (simp add: algebra_simps)
  have "dot (c # cs) (y # ys) - m * sum_list (y # ys)
        = (c * y - m * y) + (dot cs ys - m * sum_list ys)"
    by (simp add: dot_def algebra_simps)
  also have "\<dots> \<le> h * \<bar>y\<bar> + h * phi ys"
    using hd ih by simp
  also have "\<dots> = h * phi (y # ys)"
    by (simp add: phi_def algebra_simps)
  finally show ?case .
qed

section \<open>The outcomes of the solve\<close>

lemma feasible_build_problem:
  "feasible (build_problem s) y \<longleftrightarrow>
     length y = length (holdings s) \<and> return_floor s y \<and> conservation s y"
  by (simp add: feasible_def build_problem_def)

lemma pos_sum_nonempty: "0 < sum_list w \<Longrightarrow> (w :: real list) \<noteq> []"
  by auto

lemma Rebalancer_TradeVector_iff:
  "Rebalancer s (TradeVector x) \<longleftrightarrow>
     length (expected_returns s) = length (holdings s) \<and> holdings s \<noteq> [] \<and>
     feasible (build_problem s) x \<and>
     (\<forall>y. feasible (build_problem s) y \<longrightarrow> phi x \<le> phi y)"
  by (auto simp: Rebalancer.simps solve.simps build_problem_def)

lemma Rebalancer_Infeasible_iff:
  "Rebalancer s Infeasible \<longleftrightarrow>
     length (expected_returns s) = length (holdings s) \<and> holdings s \<noteq> [] \<and>
     (\<forall>y. \<not> feasible (build_problem s) y)"
  by (auto simp: Rebalancer.simps solve.simps)

lemma Rebalancer_not_Unbounded: "\<not> Rebalancer s Unbounded"
proof
  assume "Rebalancer s Unbounded"
  then have "solve (build_problem s) Unbounded"
    by (auto simp: Rebalancer.simps)
  then obtain y where "objective (build_problem s) y < 0"
    by (auto simp: solve.simps)
  then have "phi y < 0" by (simp add: build_problem_def)
  with phi_nonneg [of y] show False by simp
qed

lemma Rebalancer_ValueError_iff:
  "Rebalancer s ValueError \<longleftrightarrow>
     length (expected_returns s) \<noteq> length (holdings s) \<or> holdings s = []"
  by (auto simp: Rebalancer.simps solve.simps)

lemma Rebalancer_not_SolverError: "\<not> Rebalancer s SolverError"
  by (auto simp: Rebalancer.simps solve.simps)

lemma Rebalancer_solve_iff:
  "length (expected_returns s) = length (holdings s) \<Longrightarrow> holdings s \<noteq> [] \<Longrightarrow>
   Rebalancer s out \<longleftrightarrow> solve (build_problem s) out"
  by (auto simp: Rebalancer.simps)

lemma return_floor_iff:
  assumes "length (expected_returns s) = length (holdings s)"
    and "0 < sum_list (holdings s)" and "length y = length (holdings s)"
  shows "return_floor s y \<longleftrightarrow> shortfall s \<le> dot (expected_returns s) y"
proof -
  have "dot (expected_returns s) (vadd (holdings s) y)
        = dot (expected_returns s) (holdings s) + dot (expected_returns s) y"
    using assms by (simp add: dot_vadd)
  then show ?thesis
    using assms(2) by (simp add: return_floor_def shortfall_def pos_le_divide_eq algebra_simps)
qed

lemma conservation_iff:
  "length y = length (holdings s) \<Longrightarrow> conservation s y \<longleftrightarrow> sum_list y = 0"
  by (simp add: conservation_def sum_list_vadd)

lemma feasible_iff:
  assumes "length (expected_returns s) = length (holdings s)"
    and "0 < sum_list (holdings s)"
  shows "feasible (build_problem s) y \<longleftrightarrow>
     length y = length (holdings s) \<and> shortfall s \<le> dot (expected_returns s) y \<and>
     sum_list y = 0"
  using assms by (auto simp: feasible_build_problem return_floor_iff conservation_iff)

text \<open>Every feasible trade pays at least the shortfall divided by the half-spread of returns.\<close>

lemma feasible_lower_bound:
  assumes len: "length (expected_returns s) = length (holdings s)"
    and pos: "0 < sum_list (holdings s)"
    and spread: "\<And>c. c \<in> set (expected_returns s) \<Longrightarrow> \<bar>c - m\<bar> \<le> h"
    and feas: "feasible (build_problem s) y"
  shows "shortfall s \<le> h * phi y"
proof -
  have y: "length y = length (holdings s)" "shortfall s \<le> dot (expected_returns s) y"
    "sum_list y = 0"
    using feas feasible_iff [OF len pos] by simp_all
  have "dot (expected_returns s) y - m * sum_list y \<le> h * phi y"
    by (rule dot_centered_le) (use y len spread in simp_all)
  with y show ?thesis by simp
qed

lemma Rebalancer_optimalI:
  assumes len: "length (expected_returns s) = length (holdings s)"
    and pos: "0 < sum_list (holdings s)"
    and spread: "\<And>c. c \<in> set (expected_returns s) \<Longrightarrow> \<bar>c - m\<bar> \<le> h"
    and h: "0 < h"
    and feas: "feasible (build_problem s) x"
    and tight: "h * phi x \<le> shortfall s"
  shows "Rebalancer s (TradeVector x)"
proof -
  have "phi x \<le> phi y" if "feasible (build_problem s) y" for y
  proof -
    have "h * phi x \<le> h * phi y"
      using tight feasible_lower_bound [OF len pos spread that] by simp
    with h show ?thesis by simp
  qed
  with len pos_sum_nonempty [OF pos] feas show ?thesis
    by (simp add: Rebalancer_TradeVector_iff)
qed

lemma Rebalancer_zeroI:
  assumes len: "length (expected_returns s) = length (holdings s)"
    and pos: "0 < sum_list (holdings s)"
    and short: "shortfall s \<le> 0"
  shows "Rebalancer s (TradeVector (replicate (length (holdings s)) 0))"
proof -
  have "feasible (build_problem s) (replicate (length (holdings s)) 0)"
    using short by (simp add: feasible_iff [OF len pos] dot_replicate_zero sum_list_replicate_zero)
  moreover have "phi (replicate (length (holdings s)) 0) \<le> phi y" for y
    by (simp add: phi_replicate_zero phi_nonneg)
  ultimately show ?thesis
    using len pos_sum_nonempty [OF pos] by (simp add: Rebalancer_TradeVector_iff)
qed


lemma length_unit_trade: "length (unit_trade n i j t) = n"
  by (simp add: unit_trade_def)

lemma sum_list_unit_trade:
  "i < n \<Longrightarrow> j < n \<Longrightarrow> sum_list (unit_trade n i j t) = 0"
  by (simp add: unit_trade_def interv_sum_list_conv_sum_set_nat sum_subtractf)

lemma dot_unit_trade:
  assumes "length a = n" "i < n" "j < n"
  shows "dot a (unit_trade n i j t) = t * (a ! i - a ! j)"
proof -
  have "map2 (*) a (unit_trade n i j t)
        = map (\<lambda>k. a ! k * ((if k = i then t else 0) - (if k = j then t else 0))) [0..<n]"
    using assms(1) by (intro nth_equalityI) (simp_all add: unit_trade_def)
  then have "dot a (unit_trade n i j t)
        = (\<Sum>k = 0..<n. a ! k * ((if k = i then t else 0) - (if k = j then t else 0)))"
    by (simp add: dot_def interv_sum_list_conv_sum_set_nat)
  also have "\<dots> = (\<Sum>k = 0..<n. (if k = i then a ! k * t else 0)
                                  - (if k = j then a ! k * t else 0))"
    by (intro sum.cong) (auto simp: algebra_simps)
  also have "\<dots> = (\<Sum>k = 0..<n. (if k = i then a ! k * t else 0))
                  - (\<Sum>k = 0..<n. (if k = j then a ! k * t else 0))"
    by (rule sum_subtractf)
  also have "\<dots> = a ! i * t - a ! j * t"
    using assms(2,3) by simp
  finally show ?thesis by (simp add: algebra_simps)
qed

lemma phi_unit_trade:
  assumes "i < n" "j < n" "i \<noteq> j"
  shows "phi (unit_trade n i j t) = 2 * \<bar>t\<bar>"
proof -
  have "phi (unit_trade n i j t)
        = (\<Sum>k = 0..<n. \<bar>(if k = i then t else 0) - (if k = j then t else 0)\<bar>)"
    by (simp add: phi_def unit_trade_def interv_sum_list_conv_sum_set_nat o_def)
  also have "\<dots> = (\<Sum>k = 0..<n. (if k = i then \<bar>t\<bar> else 0) + (if k = j then \<bar>t\<bar> else 0))"
    using assms(3) by (intro sum.cong) auto
  also have "\<dots> = \<bar>t\<bar> + \<bar>t\<bar>"
    using assms(1,2) by (simp add: sum.distrib)
  finally show ?thesis by simp
qed


lemma dot_const:
  "length a = length v \<Longrightarrow> (\<And>c. c \<in> set a \<Longrightarrow> c = k) \<Longrightarrow> dot a v = k * sum_list v"
  by (induction a v rule: list_induct2) (auto simp: dot_def algebra_simps)

section \<open>Which outcomes the rebalancer has\<close>

text \<open>With two different expected returns some trade always reaches the floor.\<close>

lemma spread_returns_TradeVector:
  assumes len: "length (expected_returns s) = length (holdings s)"
    and pos: "0 < sum_list (holdings s)"
    and spread: "Min (set (expected_returns s)) < Max (set (expected_returns s))"
  shows "\<exists>x. Rebalancer s (TradeVector x)"
proof (cases "shortfall s \<le> 0")
  case True
  then show ?thesis using Rebalancer_zeroI [OF len pos] by blast
next
  case False
  define a where "a = expected_returns s"
  define n where "n = length (holdings s)"
  define hi where "hi = Max (set a)"
  define lo where "lo = Min (set a)"
  have ne: "set a \<noteq> {}" using pos len by (auto simp: a_def)
  have "hi \<in> set a" "lo \<in> set a"
    using ne by (simp_all add: hi_def lo_def)
  then obtain i j where i: "i < n" "a ! i = hi" and j: "j < n" "a ! j = lo"
    using len by (auto simp: in_set_conv_nth a_def n_def)
  have lohi: "lo < hi" using spread by (simp add: a_def hi_def lo_def)
  have bounds: "lo \<le> c \<and> c \<le> hi" if "c \<in> set a" for c
    using that by (simp add: hi_def lo_def)
  define t where "t = shortfall s / (hi - lo)"
  have t: "0 < t" "t * (hi - lo) = shortfall s"
    using False lohi by (simp_all add: t_def)
  let ?x = "unit_trade n i j t"
  have ij: "i \<noteq> j" using i j lohi by auto
  have feas: "feasible (build_problem s) ?x"
    using i j t len
    by (simp add: feasible_iff [OF len pos] length_unit_trade sum_list_unit_trade
        dot_unit_trade a_def [symmetric] n_def [symmetric])
  have "Rebalancer s (TradeVector ?x)"
  proof (rule Rebalancer_optimalI [OF len pos _ _ feas, of "(hi + lo) / 2" "(hi - lo) / 2"])
    fix c assume "c \<in> set (expected_returns s)"
    then have "lo \<le> c \<and> c \<le> hi" using bounds by (simp add: a_def)
    then have "c - (hi + lo) / 2 \<le> (hi - lo) / 2" "- (c - (hi + lo) / 2) \<le> (hi - lo) / 2"
      by (simp_all add: field_simps)
    then show "\<bar>c - (hi + lo) / 2\<bar> \<le> (hi - lo) / 2"
      by (rule abs_leI)
  next
    show "0 < (hi - lo) / 2" using lohi by simp
  next
    have "(hi - lo) / 2 * phi ?x = t * (hi - lo)"
      using t(1) by (simp add: phi_unit_trade [OF i(1) j(1) ij])
    then show "(hi - lo) / 2 * phi ?x \<le> shortfall s"
      using t(2) by simp
  qed
  then show ?thesis by blast
qed

text \<open>When all expected returns are equal, only the size of the floor matters.\<close>

lemma flat_returns_shortfall:
  assumes len: "length (expected_returns s) = length (holdings s)"
    and flat: "Min (set (expected_returns s)) = Max (set (expected_returns s))"
  shows "shortfall s = (min_return s - Max (set (expected_returns s))) * sum_list (holdings s)"
    and "length y = length (holdings s) \<Longrightarrow>
         dot (expected_returns s) y = Max (set (expected_returns s)) * sum_list y"
proof -
  have eq: "c = Max (set (expected_returns s))" if "c \<in> set (expected_returns s)" for c
  proof -
    have "Min (set (expected_returns s)) \<le> c" "c \<le> Max (set (expected_returns s))"
      using that by simp_all
    with flat show ?thesis by simp
  qed
  have dotc: "dot (expected_returns s) v = Max (set (expected_returns s)) * sum_list v"
    if "length v = length (holdings s)" for v
    using len that by (intro dot_const eq) simp_all
  then show "length y = length (holdings s) \<Longrightarrow>
         dot (expected_returns s) y = Max (set (expected_returns s)) * sum_list y"
    by simp
  from dotc [of "holdings s"] show "shortfall s
      = (min_return s - Max (set (expected_returns s))) * sum_list (holdings s)"
    by (simp add: shortfall_def algebra_simps)
qed

lemma Rebalancer_Infeasible_flat:
  assumes len: "length (expected_returns s) = length (holdings s)"
    and pos: "0 < sum_list (holdings s)"
  shows "Rebalancer s Infeasible \<longleftrightarrow>
     Min (set (expected_returns s)) = Max (set (expected_returns s)) \<and>
     Max (set (expected_returns s)) < min_return s"
proof
  assume inf: "Rebalancer s Infeasible"
  then have none: "\<not> feasible (build_problem s) y" for y
    by (simp add: Rebalancer_Infeasible_iff)
  have no_tv: "\<not> Rebalancer s (TradeVector x)" for x
    using none by (simp add: Rebalancer_TradeVector_iff)
  have ne: "set (expected_returns s) \<noteq> {}" using pos len by auto
  have flat: "Min (set (expected_returns s)) = Max (set (expected_returns s))"
  proof (rule ccontr)
    assume "Min (set (expected_returns s)) \<noteq> Max (set (expected_returns s))"
    moreover have "Min (set (expected_returns s)) \<le> Max (set (expected_returns s))"
      using ne by simp
    ultimately have "Min (set (expected_returns s)) < Max (set (expected_returns s))"
      by simp
    from spread_returns_TradeVector [OF len pos this] no_tv show False by blast
  qed
  moreover have "Max (set (expected_returns s)) < min_return s"
  proof (rule ccontr)
    assume "\<not> Max (set (expected_returns s)) < min_return s"
    then have "shortfall s \<le> 0"
      using pos by (simp add: flat_returns_shortfall(1) [OF len flat] mult_le_0_iff)
    from Rebalancer_zeroI [OF len pos this] no_tv show False by blast
  qed
  ultimately show "Min (set (expected_returns s)) = Max (set (expected_returns s)) \<and>
     Max (set (expected_returns s)) < min_return s" by simp
next
  assume a: "Min (set (expected_returns s)) = Max (set (expected_returns s)) \<and>
     Max (set (expected_returns s)) < min_return s"
  then have flat: "Min (set (expected_returns s)) = Max (set (expected_returns s))" by simp
  have short: "0 < shortfall s"
    using a pos by (simp add: flat_returns_shortfall(1) [OF len flat])
  have "\<not> feasible (build_problem s) y" for y
  proof
    assume "feasible (build_problem s) y"
    then have y: "length y = length (holdings s)" "shortfall s \<le> dot (expected_returns s) y"
      "sum_list y = 0"
      by (simp_all add: feasible_iff [OF len pos])
    then show False
      using short by (simp add: flat_returns_shortfall(2) [OF len flat])
  qed
  then show "Rebalancer s Infeasible"
    using len pos_sum_nonempty [OF pos] by (simp add: Rebalancer_Infeasible_iff)
qed

lemma Rebalancer_TradeVector_or_Infeasible:
  assumes len: "length (expected_returns s) = length (holdings s)"
    and pos: "0 < sum_list (holdings s)"
  shows "Rebalancer s Infeasible \<or> (\<exists>x. Rebalancer s (TradeVector x))"
proof (cases "Min (set (expected_returns s)) < Max (set (expected_returns s))")
  case True
  then show ?thesis using spread_returns_TradeVector [OF len pos] by blast
next
  case False
  have ne: "set (expected_returns s) \<noteq> {}" using pos len by auto
  then have "Min (set (expected_returns s)) \<le> Max (set (expected_returns s))" by simp
  with False have flat: "Min (set (expected_returns s)) = Max (set (expected_returns s))"
    by simp
  show ?thesis
  proof (cases "Max (set (expected_returns s)) < min_return s")
    case True
    with flat show ?thesis by (simp add: Rebalancer_Infeasible_flat [OF len pos])
  next
    case False
    then have "shortfall s \<le> 0"
      using pos by (simp add: flat_returns_shortfall(1) [OF len flat] mult_le_0_iff)
    then show ?thesis using Rebalancer_zeroI [OF len pos] by blast
  qed
qed

lemma dot_le_max:
  "length a = length v \<Longrightarrow> (\<And>c. c \<in> set a \<Longrightarrow> c \<le> k) \<Longrightarrow> (\<And>u. u \<in> set v \<Longrightarrow> 0 \<le> u) \<Longrightarrow>
   dot a v \<le> k * sum_list v"
proof (induction a v rule: list_induct2)
  case Nil
  show ?case by (simp add: dot_def)
next
  case (Cons c cs u us)
  have "dot cs us \<le> k * sum_list us"
    using Cons.IH Cons.prems by simp
  moreover have "c * u \<le> k * u"
    using Cons.prems by (intro mult_right_mono) simp_all
  ultimately show ?case by (simp add: dot_def algebra_simps)
qed

text \<open>Above the largest expected return, no long-only portfolio of the same value reaches the floor.\<close>

lemma floor_above_max_needs_short:
  assumes len: "length (expected_returns s) = length (holdings s)"
    and pos: "0 < sum_list (holdings s)"
    and above: "Max (set (expected_returns s)) < min_return s"
    and feas: "feasible (build_problem s) x"
  shows "\<exists>v \<in> set (vadd (holdings s) x). v < 0"
proof (rule ccontr)
  assume "\<not> (\<exists>v \<in> set (vadd (holdings s) x). v < 0)"
  then have nonneg: "0 \<le> v" if "v \<in> set (vadd (holdings s) x)" for v
    using that by fastforce
  have x: "length x = length (holdings s)" "return_floor s x" "conservation s x"
    using feas by (simp_all add: feasible_build_problem)
  have "dot (expected_returns s) (vadd (holdings s) x)
        \<le> Max (set (expected_returns s)) * sum_list (vadd (holdings s) x)"
    using len x(1) nonneg by (intro dot_le_max) (simp_all add: vadd_def)
  also have "\<dots> = Max (set (expected_returns s)) * sum_list (holdings s)"
    using x(3) by (simp add: conservation_def)
  also have "\<dots> < min_return s * sum_list (holdings s)"
    using above pos by simp
  finally have "dot (expected_returns s) (vadd (holdings s) x) / sum_list (holdings s)
        < min_return s"
    using pos by (simp add: pos_divide_less_eq)
  with x(2) show False by (simp add: return_floor_def)
qed

section \<open>The example portfolios\<close>

lemma two_asset_valid: "valid two_asset_state"
  by (simp add: valid_def two_asset_state_def)

lemma two_asset_feasible: "feasible (build_problem two_asset_state) [- 1 / 2, 1 / 2]"
  by (simp add: feasible_build_problem return_floor_def conservation_def vadd_def dot_def
      two_asset_state_def)

lemma two_asset_returned: "Rebalancer two_asset_state (TradeVector [- 1 / 2, 1 / 2])"
proof -
  have spread: "\<bar>c - 3 / 2\<bar> \<le> 1 / 2" if "c \<in> set (expected_returns two_asset_state)" for c
    using that by (auto simp: two_asset_state_def)
  show ?thesis
    by (rule Rebalancer_optimalI [of _ "3 / 2" "1 / 2", OF _ _ spread _ two_asset_feasible])
      (simp_all add: two_asset_state_def shortfall_def dot_def phi_def)
qed

lemma tie_feasible:
  "feasible (build_problem tie_state) [- 1, 1, 0]"
  "feasible (build_problem tie_state) [- 1, 0, 1]"
  by (simp_all add: feasible_build_problem return_floor_def conservation_def vadd_def dot_def
      tie_state_def)

lemma tie_returned:
  "Rebalancer tie_state (TradeVector [- 1, 1, 0])"
  "Rebalancer tie_state (TradeVector [- 1, 0, 1])"
proof -
  have spread: "\<bar>c - 3 / 2\<bar> \<le> 1 / 2" if "c \<in> set (expected_returns tie_state)" for c
    using that by (auto simp: tie_state_def)
  show "Rebalancer tie_state (TradeVector [- 1, 1, 0])"
    by (rule Rebalancer_optimalI [of _ "3 / 2" "1 / 2", OF _ _ spread _ tie_feasible(1)])
      (simp_all add: tie_state_def shortfall_def dot_def phi_def)
  show "Rebalancer tie_state (TradeVector [- 1, 0, 1])"
    by (rule Rebalancer_optimalI [of _ "3 / 2" "1 / 2", OF _ _ spread _ tie_feasible(2)])
      (simp_all add: tie_state_def shortfall_def dot_def phi_def)
qed

lemma short_valid: "valid short_state"
  by (simp add: valid_def short_state_def)

lemma short_feasible: "feasible (build_problem short_state) [- 3, 3]"
  by (simp add: feasible_build_problem return_floor_def conservation_def vadd_def dot_def
      short_state_def)

lemma short_returned: "Rebalancer short_state (TradeVector [- 3, 3])"
proof -
  have spread: "\<bar>c - 3 / 2\<bar> \<le> 1 / 2" if "c \<in> set (expected_returns short_state)" for c
    using that by (auto simp: short_state_def)
  show ?thesis
    by (rule Rebalancer_optimalI [of _ "3 / 2" "1 / 2", OF _ _ spread _ short_feasible])
      (simp_all add: short_state_def shortfall_def dot_def phi_def)
qed

lemma short_not_Infeasible: "\<not> Rebalancer short_state Infeasible"
  using short_feasible by (auto simp: Rebalancer_Infeasible_iff)

lemma flat_valid: "valid flat_state"
  by (simp add: valid_def flat_state_def)


lemma mismatched_ValueError: "Rebalancer mismatched_state ValueError"
  by (simp add: Rebalancer_ValueError_iff mismatched_state_def)

section \<open>The notebook's portfolio\<close>

lemma demo_valid: "valid demo_state"
  by (simp add: valid_def demo_state_def)

lemma demo_shortfall: "shortfall demo_state = 2986896683 / 10 ^ 8"
  by (simp add: shortfall_def dot_def demo_state_def)

lemma demo_feasible: "feasible (build_problem demo_state) demo_trade"
  by (simp add: feasible_build_problem return_floor_def conservation_def vadd_def dot_def
      demo_state_def demo_trade_def demo_amount_def)

lemma demo_spread:
  "c \<in> set (expected_returns demo_state) \<Longrightarrow> \<bar>c - 145198236 / 10 ^ 8\<bar> \<le> 39526938 / 10 ^ 8"
  by (auto simp: demo_state_def)

lemma demo_returned: "Rebalancer demo_state (TradeVector demo_trade)"
  by (rule Rebalancer_optimalI [OF _ _ demo_spread _ demo_feasible])
    (simp_all add: demo_shortfall, simp_all add: demo_state_def phi_def demo_trade_def demo_amount_def)

lemma phi_demo_trade: "phi demo_trade = 2 * demo_amount"
  by (simp add: phi_def demo_trade_def demo_amount_def)

lemma length5:
  "length (x :: real list) = 5 \<Longrightarrow> \<exists>x1 x2 x3 x4 x5. x = [x1, x2, x3, x4, x5]"
  by (auto simp: length_Suc_conv eval_nat_numeral)

lemma demo_unique_arith:
  fixes x1 x2 x3 x4 x5 :: real
  assumes "2986896683 \<le> 184725174 * x1 + 162356370 * x2 + 138438171 * x3 + 129753461 * x4
            + 105671298 * x5"
    and "x1 + x2 + x3 + x4 + x5 = 0"
    and "\<bar>x1\<bar> + \<bar>x2\<bar> + \<bar>x3\<bar> + \<bar>x4\<bar> + \<bar>x5\<bar> \<le> 2 * (2986896683 / 79053876)"
  shows "x1 = 2986896683 / 79053876" and "x2 = 0" and "x3 = 0" and "x4 = 0"
    and "x5 = - (2986896683 / 79053876)"
proof -
  show x2: "x2 = 0" using assms by linarith
  show x3: "x3 = 0" using assms by linarith
  show x4: "x4 = 0" using assms by linarith
  show "x1 = 2986896683 / 79053876" using assms x2 x3 x4 by linarith
  then show "x5 = - (2986896683 / 79053876)" using assms(2) x2 x3 x4 by linarith
qed

text \<open>On the notebook's data the optimal trade is unique.\<close>

lemma demo_unique:
  assumes "Rebalancer demo_state (TradeVector x)"
  shows "x = demo_trade"
proof -
  have len: "length (expected_returns demo_state) = length (holdings demo_state)"
    and pos: "0 < sum_list (holdings demo_state)"
    by (simp_all add: demo_state_def)
  have feas: "feasible (build_problem demo_state) x"
    and opt: "phi x \<le> phi demo_trade"
    using assms demo_feasible by (simp_all add: Rebalancer_TradeVector_iff)
  from feas have "length x = 5"
    by (simp add: feasible_build_problem demo_state_def)
  then obtain x1 x2 x3 x4 x5 where x: "x = [x1, x2, x3, x4, x5]"
    using length5 by blast
  have floor: "2986896683 \<le> 184725174 * x1 + 162356370 * x2 + 138438171 * x3
      + 129753461 * x4 + 105671298 * x5"
    and total: "x1 + x2 + x3 + x4 + x5 = 0"
    using feas unfolding feasible_iff [OF len pos] demo_shortfall
    by (simp_all add: x dot_def demo_state_def)
  have norm: "\<bar>x1\<bar> + \<bar>x2\<bar> + \<bar>x3\<bar> + \<bar>x4\<bar> + \<bar>x5\<bar> \<le> 2 * (2986896683 / 79053876)"
    using opt unfolding phi_demo_trade by (simp add: x phi_def demo_amount_def)
  from demo_unique_arith [OF floor total norm] show ?thesis
    by (simp add: x demo_trade_def demo_amount_def)
qed


lemma demo_zero_below_floor: "\<not> return_floor demo_state [0, 0, 0, 0, 0]"
  by (simp add: return_floor_def vadd_def dot_def demo_state_def)

lemma demo_amount_bounds: "3778 / 100 < demo_amount" "demo_amount < 3779 / 100"
  by (simp_all add: demo_amount_def)

section \<open>Properties of a returned trade vector\<close>

text \<open>
  C1 (value conservation). Whenever the rebalancer returns a TradeVector \<open>x\<close>, the
  post-trade holdings \<open>holdings + x\<close> sum to exactly the pre-trade total, hence also
  within a relative tolerance of \<open>1e-6\<close>. No assumption on the PortfolioState is needed.
\<close>

theorem value_conservation:
  assumes "Rebalancer s (TradeVector x)"
  shows "sum_list (vadd (holdings s) x) = sum_list (holdings s) \<and>
         \<bar>sum_list (vadd (holdings s) x) - sum_list (holdings s)\<bar>
           \<le> \<bar>sum_list (holdings s)\<bar> / 10 ^ 6"
proof -
  have "conservation s x"
    using assms by (simp add: Rebalancer_TradeVector_iff feasible_build_problem)
  then show ?thesis by (simp add: conservation_def)
qed

text \<open>C1 at the two-asset portfolio: the total stays 2.\<close>

theorem value_conservation_witness:
  "valid two_asset_state \<and> Rebalancer two_asset_state (TradeVector [- 1 / 2, 1 / 2]) \<and>
   sum_list (holdings two_asset_state) = 2 \<and>
   sum_list (vadd (holdings two_asset_state) [- 1 / 2, 1 / 2]) = 2"
  using value_conservation [OF two_asset_returned] two_asset_returned two_asset_valid
  by (simp add: two_asset_state_def)

text \<open>
  C2 (return floor). Whenever the rebalancer returns a TradeVector \<open>x\<close>, the weighted
  return \<open>dot(expected_returns, holdings + x) / sum(holdings)\<close> is at least
  \<open>min_return\<close>, hence also at least \<open>min_return - 1e-6\<close>.
\<close>

theorem return_floor_met:
  assumes "Rebalancer s (TradeVector x)"
  shows "min_return s
           \<le> dot (expected_returns s) (vadd (holdings s) x) / sum_list (holdings s) \<and>
         min_return s - 1 / 10 ^ 6
           \<le> dot (expected_returns s) (vadd (holdings s) x) / sum_list (holdings s)"
proof -
  have "return_floor s x"
    using assms by (simp add: Rebalancer_TradeVector_iff feasible_build_problem)
  then show ?thesis by (simp add: return_floor_def)
qed

text \<open>C2 at the two-asset portfolio, whose floor lies below the largest expected return.\<close>

theorem return_floor_met_witness:
  "valid two_asset_state \<and> Rebalancer two_asset_state (TradeVector [- 1 / 2, 1 / 2]) \<and>
   min_return two_asset_state \<le> Max (set (expected_returns two_asset_state)) \<and>
   min_return two_asset_state
     \<le> dot (expected_returns two_asset_state) (vadd (holdings two_asset_state) [- 1 / 2, 1 / 2])
         / sum_list (holdings two_asset_state)"
  using return_floor_met [OF two_asset_returned] two_asset_returned two_asset_valid
  by (simp add: two_asset_state_def)

text \<open>
  C3 (L1-optimality). A returned TradeVector \<open>x\<close> minimizes the sum of absolute trade
  amounts: every vector \<open>y\<close> of length \<open>n\<close> that meets the return floor
  \<open>dot(expected_returns, holdings + y) / sum(holdings) \<ge> min_return\<close> and conserves
  value, \<open>sum(holdings + y) = sum(holdings)\<close>, has
  \<open>|x_1| + ... + |x_n| \<le> |y_1| + ... + |y_n|\<close>.
\<close>

theorem l1_optimal:
  assumes "Rebalancer s (TradeVector x)"
    and "length y = length (holdings s)"
    and "min_return s
           \<le> dot (expected_returns s) (vadd (holdings s) y) / sum_list (holdings s)"
    and "sum_list (vadd (holdings s) y) = sum_list (holdings s)"
  shows "(\<Sum>v\<leftarrow>x. \<bar>v\<bar>) \<le> (\<Sum>v\<leftarrow>y. \<bar>v\<bar>)"
proof -
  have "feasible (build_problem s) y"
    using assms(2-4) by (simp add: feasible_build_problem return_floor_def conservation_def)
  then have "phi x \<le> phi y"
    using assms(1) by (simp add: Rebalancer_TradeVector_iff)
  then show ?thesis by (simp add: phi_def)
qed

text \<open>
  C3 at the two-asset portfolio, against the feasible trade that moves a whole unit: the
  returned trade has 1-norm 1, the other 2.
\<close>

theorem l1_optimal_witness:
  "Rebalancer two_asset_state (TradeVector [- 1 / 2, 1 / 2]) \<and>
   min_return two_asset_state
     \<le> dot (expected_returns two_asset_state) (vadd (holdings two_asset_state) [- 1, 1])
         / sum_list (holdings two_asset_state) \<and>
   sum_list (vadd (holdings two_asset_state) [- 1, 1]) = sum_list (holdings two_asset_state) \<and>
   (\<Sum>v\<leftarrow>[- 1 / 2, 1 / 2 :: real]. \<bar>v\<bar>) = 1 \<and> (\<Sum>v\<leftarrow>[- 1, 1 :: real]. \<bar>v\<bar>) = 2 \<and>
   (\<Sum>v\<leftarrow>[- 1 / 2, 1 / 2 :: real]. \<bar>v\<bar>) \<le> (\<Sum>v\<leftarrow>[- 1, 1 :: real]. \<bar>v\<bar>)"
proof -
  have y: "length [- 1, 1 :: real] = length (holdings two_asset_state)"
    "min_return two_asset_state
       \<le> dot (expected_returns two_asset_state) (vadd (holdings two_asset_state) [- 1, 1])
           / sum_list (holdings two_asset_state)"
    "sum_list (vadd (holdings two_asset_state) [- 1, 1]) = sum_list (holdings two_asset_state)"
    by (simp_all add: vadd_def dot_def two_asset_state_def)
  from l1_optimal [OF two_asset_returned y] two_asset_returned y show ?thesis by simp
qed

text \<open>
  C7 (determinism and idempotence of the solve). A call leaves its inputs as they were:
  the PortfolioState after the call is the PortfolioState before it. Hence calling the
  rebalancer twice, the second time on what the first call left, is calling it twice on
  identical input, and the two outcomes agree: if the first returns a TradeVector \<open>x\<close>
  then the second returns a TradeVector \<open>y\<close> with the same sum of absolute trade amounts,
  \<open>|y_1| + ... + |y_n| = |x_1| + ... + |x_n|\<close> (so the difference is below any
  tolerance; the vectors themselves may differ), and any other outcome is the same in
  both calls.
\<close>

theorem solve_idempotent:
  assumes "Rebalancer_call s (s1, o1)" and "Rebalancer_call s1 (s2, o2)"
  shows "s1 = s \<and> s2 = s \<and>
         (case o1 of
            TradeVector x \<Rightarrow>
              (\<exists>y. o2 = TradeVector y \<and> (\<Sum>v\<leftarrow>y. \<bar>v\<bar>) = (\<Sum>v\<leftarrow>x. \<bar>v\<bar>) \<and>
                   \<bar>(\<Sum>v\<leftarrow>y. \<bar>v\<bar>) - (\<Sum>v\<leftarrow>x. \<bar>v\<bar>)\<bar> < 1 / 10 ^ 6)
          | _ \<Rightarrow> o2 = o1)"
proof -
  from assms(1) have s1: "s1 = s" and r1: "Rebalancer s o1"
    by (auto elim: Rebalancer_call.cases)
  from assms(2) s1 have s2: "s2 = s" and r2: "Rebalancer s o2"
    by (auto elim: Rebalancer_call.cases)
  have "case o1 of
          TradeVector x \<Rightarrow> (\<exists>y. o2 = TradeVector y \<and> phi y = phi x)
        | _ \<Rightarrow> o2 = o1"
  proof (cases o1)
    case (TradeVector x)
    with r1 have x: "length (expected_returns s) = length (holdings s)"
      "holdings s \<noteq> []" "feasible (build_problem s) x"
      "\<And>z. feasible (build_problem s) z \<Longrightarrow> phi x \<le> phi z"
      by (simp_all add: Rebalancer_TradeVector_iff)
    from r2 x(1,2) have "solve (build_problem s) o2"
      by (simp add: Rebalancer_solve_iff)
    then show ?thesis
    proof cases
      case (solve_optimal y)
      then have "phi y \<le> phi x" "phi x \<le> phi y"
        using x(3,4) by (simp_all add: build_problem_def)
      with solve_optimal TradeVector show ?thesis by simp
    next
      case solve_infeasible
      with x(3) show ?thesis by simp
    next
      case (solve_unbounded y0)
      then have "Rebalancer s Unbounded" using r2 by simp
      then show ?thesis by (simp add: Rebalancer_not_Unbounded)
    qed
  next
    case Infeasible
    with r1 have none: "length (expected_returns s) = length (holdings s)"
      "holdings s \<noteq> []" "\<And>y. \<not> feasible (build_problem s) y"
      by (simp_all add: Rebalancer_Infeasible_iff)
    from r2 none(1,2) have "solve (build_problem s) o2"
      by (simp add: Rebalancer_solve_iff)
    then show ?thesis
      using none(3) Infeasible by cases simp_all
  next
    case Unbounded
    with r1 show ?thesis by (simp add: Rebalancer_not_Unbounded)
  next
    case ValueError
    with r1 have "length (expected_returns s) \<noteq> length (holdings s) \<or> holdings s = []"
      by (simp add: Rebalancer_ValueError_iff)
    with r2 ValueError show ?thesis by (auto simp: Rebalancer.simps)
  next
    case SolverError
    with r1 show ?thesis by (simp add: Rebalancer_not_SolverError)
  qed
  then have "case o1 of
      TradeVector x \<Rightarrow>
        (\<exists>y. o2 = TradeVector y \<and> (\<Sum>v\<leftarrow>y. \<bar>v\<bar>) = (\<Sum>v\<leftarrow>x. \<bar>v\<bar>) \<and>
             \<bar>(\<Sum>v\<leftarrow>y. \<bar>v\<bar>) - (\<Sum>v\<leftarrow>x. \<bar>v\<bar>)\<bar> < 1 / 10 ^ 6)
    | _ \<Rightarrow> o2 = o1"
    by (cases o1) (auto simp: phi_def)
  with s1 s2 show ?thesis by simp
qed

text \<open>
  C7 at the three-asset portfolio with a tie: the first call returns \<open>[-1, 1, 0]\<close>, the
  second \<open>[-1, 0, 1]\<close>, both of 1-norm 2, and the portfolio is the same after both.
\<close>

theorem solve_idempotent_witness:
  "Rebalancer_call tie_state (tie_state, TradeVector [- 1, 1, 0]) \<and>
   Rebalancer_call tie_state (tie_state, TradeVector [- 1, 0, 1]) \<and>
   (\<Sum>v\<leftarrow>[- 1, 1, 0 :: real]. \<bar>v\<bar>) = 2 \<and> (\<Sum>v\<leftarrow>[- 1, 0, 1 :: real]. \<bar>v\<bar>) = 2"
proof -
  have c: "Rebalancer_call tie_state (tie_state, TradeVector [- 1, 1, 0])"
    "Rebalancer_call tie_state (tie_state, TradeVector [- 1, 0, 1])"
    using tie_returned by (simp_all add: Rebalancer_call.simps)
  from solve_idempotent [OF c(1) c(2)] c show ?thesis by simp
qed

section \<open>Infeasibility, short positions and input checks\<close>

text \<open>
  C4 as stated fails: at the two-asset portfolio with expected returns 1 and 2 the floor 3
  exceeds the largest expected return, yet the rebalancer returns the trade vector
  \<open>[-3, 3]\<close> and does not report Infeasible.
\<close>

theorem infeasible_iff_above_max_counterexample:
  "valid short_state \<and>
   Max (set (expected_returns short_state)) < min_return short_state \<and>
   Rebalancer short_state (TradeVector [- 3, 3]) \<and>
   \<not> Rebalancer short_state Infeasible"
  using short_valid short_returned short_not_Infeasible
  by (simp add: short_state_def)

text \<open>
  C4, amended. For every valid PortfolioState with a positive total of holdings, the
  rebalancer reports Infeasible if and only if all expected returns are equal and
  \<open>min_return\<close> exceeds them; in every other case it returns a TradeVector, in
  particular whenever \<open>min_return\<close> is at most the largest expected return.
\<close>

theorem infeasible_characterization:
  assumes "valid s" and "0 < sum_list (holdings s)"
  shows "(Rebalancer s Infeasible \<longleftrightarrow>
            Min (set (expected_returns s)) = Max (set (expected_returns s)) \<and>
            Max (set (expected_returns s)) < min_return s) \<and>
         (\<not> Rebalancer s Infeasible \<longrightarrow> (\<exists>x. Rebalancer s (TradeVector x))) \<and>
         (min_return s \<le> Max (set (expected_returns s)) \<longrightarrow>
            (\<exists>x. Rebalancer s (TradeVector x)))"
proof -
  have len: "length (expected_returns s) = length (holdings s)"
    using assms(1) by (simp add: valid_def)
  note iff = Rebalancer_Infeasible_flat [OF len assms(2)]
  note total = Rebalancer_TradeVector_or_Infeasible [OF len assms(2)]
  have "\<exists>x. Rebalancer s (TradeVector x)" if "\<not> Rebalancer s Infeasible"
    using that total by blast
  moreover have "\<not> Rebalancer s Infeasible"
    if "min_return s \<le> Max (set (expected_returns s))"
    using that iff by simp
  ultimately show ?thesis using iff by blast
qed

text \<open>
  C4 amended, at two portfolios: with equal expected returns 2 and floor 3 the outcome is
  Infeasible; with the floor 7/4 below the largest expected return a TradeVector is
  returned.
\<close>

theorem infeasible_characterization_witness:
  "valid flat_state \<and> 0 < sum_list (holdings flat_state) \<and> Rebalancer flat_state Infeasible \<and>
   valid two_asset_state \<and> 0 < sum_list (holdings two_asset_state) \<and>
   min_return two_asset_state \<le> Max (set (expected_returns two_asset_state)) \<and>
   (\<exists>x. Rebalancer two_asset_state (TradeVector x))"
proof -
  have f: "0 < sum_list (holdings flat_state)" and t: "0 < sum_list (holdings two_asset_state)"
    by (simp_all add: flat_state_def two_asset_state_def)
  have "Rebalancer flat_state Infeasible"
    using infeasible_characterization [OF flat_valid f] by (simp add: flat_state_def)
  moreover have "min_return two_asset_state \<le> Max (set (expected_returns two_asset_state))"
    by (simp add: two_asset_state_def)
  moreover from this have "\<exists>x. Rebalancer two_asset_state (TradeVector x)"
    using infeasible_characterization [OF two_asset_valid t] by blast
  ultimately show ?thesis using f t flat_valid two_asset_valid by blast
qed

text \<open>
  C10 (long-only is not preserved). The constructed problem has no nonnegativity
  constraint: for every valid PortfolioState with a positive total, distinct expected
  returns and \<open>min_return\<close> above the largest of them, the rebalancer returns a
  TradeVector, and every TradeVector it returns leaves a negative component in
  \<open>holdings + x\<close>.
\<close>

theorem long_only_not_preserved:
  assumes "valid s" and "0 < sum_list (holdings s)"
    and "Min (set (expected_returns s)) < Max (set (expected_returns s))"
    and "Max (set (expected_returns s)) < min_return s"
  shows "(\<exists>x. Rebalancer s (TradeVector x)) \<and>
         (\<forall>x. Rebalancer s (TradeVector x) \<longrightarrow> (\<exists>v \<in> set (vadd (holdings s) x). v < 0))"
proof -
  have len: "length (expected_returns s) = length (holdings s)"
    using assms(1) by (simp add: valid_def)
  have "\<exists>x. Rebalancer s (TradeVector x)"
    by (rule spread_returns_TradeVector [OF len assms(2,3)])
  moreover have "\<exists>v \<in> set (vadd (holdings s) x). v < 0" if "Rebalancer s (TradeVector x)" for x
    using that floor_above_max_needs_short [OF len assms(2,4)]
    by (simp add: Rebalancer_TradeVector_iff)
  ultimately show ?thesis by blast
qed

text \<open>
  C10 at the two-asset portfolio \<open>[1, 1]\<close> with expected returns 1 and 2 and floor 3:
  the returned trade \<open>[-3, 3]\<close> leaves the holdings \<open>[-2, 4]\<close>.
\<close>

theorem long_only_not_preserved_witness:
  "valid short_state \<and> (\<exists>x. Rebalancer short_state (TradeVector x)) \<and>
   Rebalancer short_state (TradeVector [- 3, 3]) \<and>
   vadd (holdings short_state) [- 3, 3] = [- 2, 4] \<and>
   (\<exists>v \<in> set (vadd (holdings short_state) [- 3, 3]). v < 0)"
proof -
  have "0 < sum_list (holdings short_state)"
    "Min (set (expected_returns short_state)) < Max (set (expected_returns short_state))"
    "Max (set (expected_returns short_state)) < min_return short_state"
    by (simp_all add: short_state_def)
  from long_only_not_preserved [OF short_valid this] short_returned short_valid
  show ?thesis by (auto simp: vadd_def short_state_def)
qed




section \<open>The end-to-end scenario\<close>

text \<open>
  C5 as stated fails on the notebook's data: the initial portfolio's weighted return is
  below 1.5, the zero trade misses the return floor and is not returned, and the trade
  that is returned has a 1-norm above 75, not close to 0.
\<close>

theorem demo_objective_counterexample:
  "dot (expected_returns demo_state) (holdings demo_state) / sum_list (holdings demo_state)
     < min_return demo_state \<and>
   \<not> return_floor demo_state [0, 0, 0, 0, 0] \<and>
   \<not> Rebalancer demo_state (TradeVector [0, 0, 0, 0, 0]) \<and>
   Rebalancer demo_state (TradeVector demo_trade) \<and>
   75 < phi demo_trade"
proof -
  have "\<not> Rebalancer demo_state (TradeVector [0, 0, 0, 0, 0])"
    using demo_zero_below_floor by (simp add: Rebalancer_TradeVector_iff feasible_build_problem)
  moreover have "75 < phi demo_trade"
    using demo_amount_bounds by (simp add: phi_demo_trade)
  moreover have "dot (expected_returns demo_state) (holdings demo_state)
      / sum_list (holdings demo_state) < min_return demo_state"
    by (simp add: dot_def demo_state_def)
  ultimately show ?thesis
    using demo_zero_below_floor demo_returned by simp
qed

text \<open>
  C5, amended. On the input \<open>n = 5\<close>, holdings \<open>[45, 48, 65, 68, 68]\<close>, expected returns
  \<open>[1.84725174, 1.6235637, 1.38438171, 1.29753461, 1.05671298]\<close> and \<open>min_return = 1.5\<close>
  the rebalancer returns a TradeVector, and every TradeVector \<open>x\<close> it returns preserves
  the total value 294, achieves a weighted return of at least 1.5, has the minimized
  objective \<open>phi x = 2 * 2986896683 / 79053876\<close>, about 75.57 (the initial portfolio's
  weighted return is below 1.5, so some trade is needed), and gives
  \<open>holdings + x = [45 + t, 48, 65, 68, 68 - t]\<close> with \<open>t\<close> about 37.78, that is about
  \<open>[82.78, 48.00, 65.00, 68.00, 30.22]\<close>.
\<close>

theorem demo_scenario:
  "(\<exists>x. Rebalancer demo_state (TradeVector x)) \<and>
   (\<forall>x. Rebalancer demo_state (TradeVector x) \<longrightarrow>
      sum_list (vadd (holdings demo_state) x) = 294 \<and>
      3 / 2 \<le> dot (expected_returns demo_state) (vadd (holdings demo_state) x) / 294 \<and>
      phi x = 2 * demo_amount \<and> \<bar>phi x - 7557 / 100\<bar> \<le> 1 / 100 \<and>
      vadd (holdings demo_state) x = [45 + demo_amount, 48, 65, 68, 68 - demo_amount] \<and>
      \<bar>45 + demo_amount - 8278 / 100\<bar> \<le> 1 / 100 \<and>
      \<bar>68 - demo_amount - 3022 / 100\<bar> \<le> 1 / 100)"
proof (intro conjI allI impI)
  show "\<exists>x. Rebalancer demo_state (TradeVector x)"
    using demo_returned by blast
next
  fix x assume "Rebalancer demo_state (TradeVector x)"
  then have x: "x = demo_trade" by (rule demo_unique)
  have feas: "return_floor demo_state demo_trade" "conservation demo_state demo_trade"
    using demo_feasible by (simp_all add: feasible_build_problem)
  have total: "sum_list (holdings demo_state) = 294"
    by (simp add: demo_state_def)
  show "sum_list (vadd (holdings demo_state) x) = 294"
    using feas(2) total by (simp add: x conservation_def)
  show "3 / 2 \<le> dot (expected_returns demo_state) (vadd (holdings demo_state) x) / 294"
    using feas(1) total by (simp add: x return_floor_def demo_state_def)
  show "phi x = 2 * demo_amount"
    by (simp add: x phi_demo_trade)
  show "\<bar>phi x - 7557 / 100\<bar> \<le> 1 / 100"
    unfolding x phi_demo_trade by (simp add: demo_amount_def abs_le_iff)
  show "vadd (holdings demo_state) x = [45 + demo_amount, 48, 65, 68, 68 - demo_amount]"
    by (simp add: x vadd_def demo_state_def demo_trade_def)
  show "\<bar>45 + demo_amount - 8278 / 100\<bar> \<le> 1 / 100"
    by (simp add: demo_amount_def abs_le_iff)
  show "\<bar>68 - demo_amount - 3022 / 100\<bar> \<le> 1 / 100"
    by (simp add: demo_amount_def abs_le_iff)
qed

text \<open>C5 amended, at the trade that moves about 37.78 from the fifth asset into the first.\<close>

theorem demo_scenario_witness:
  "Rebalancer demo_state (TradeVector demo_trade) \<and>
   sum_list (vadd (holdings demo_state) demo_trade) = 294 \<and>
   phi demo_trade = 2 * demo_amount \<and>
   vadd (holdings demo_state) demo_trade = [45 + demo_amount, 48, 65, 68, 68 - demo_amount]"
  using demo_scenario demo_returned by blast


section \<open>Features\<close>

text \<open>
  C8 as stated fails for a crossed quote: with bid 2 and ask 1 the trade price 3/2 is
  above the ask (and below the bid), and the feature is 1/2, inside \<open>[0, 1]\<close>.
\<close>

theorem bid_ask_bounce_outside_counterexample:
  "(1::real) \<noteq> 2 \<and> (1::real) < 3 / 2 \<and> (3 / 2 :: real) < 2 \<and>
   bid_ask_bounce (3 / 2) 2 1 = Some (1 / 2) \<and> (0::real) \<le> 1 / 2 \<and> (1 / 2 :: real) \<le> 1"
  by (simp add: bid_ask_bounce_def)

text \<open>
  C8, amended. For every trade price \<open>t\<close>, bid \<open>b\<close> and ask \<open>a\<close> with \<open>a \<noteq> b\<close> the
  bid-ask bounce is exactly \<open>(t - b) / (a - b)\<close>: 0 when \<open>t = b\<close>, 1 when \<open>t = a\<close>, and
  a raw unclamped value outside \<open>[0, 1]\<close> exactly when \<open>t\<close> lies outside the interval
  between bid and ask, that is above both or below both; for \<open>b < a\<close> this is: above
  the ask or below the bid. When \<open>a = b\<close> the feature is undefined.
\<close>

theorem bid_ask_bounce_raw:
  "(a \<noteq> b \<longrightarrow>
      bid_ask_bounce t b a = Some ((t - b) / (a - b)) \<and>
      bid_ask_bounce b b a = Some 0 \<and> bid_ask_bounce a b a = Some 1 \<and>
      (\<exists>v. bid_ask_bounce t b a = Some v \<and>
           (v < 0 \<or> 1 < v \<longleftrightarrow> t < min a b \<or> max a b < t))) \<and>
   (b < a \<and> (a < t \<or> t < b) \<longrightarrow> (\<exists>v. bid_ask_bounce t b a = Some v \<and> (v < 0 \<or> 1 < v))) \<and>
   (a = b \<longrightarrow> bid_ask_bounce t b a = None)"
proof -
  have up: "(t - b) / (a - b) < 0 \<or> 1 < (t - b) / (a - b) \<longleftrightarrow> t < b \<or> a < t" if "b < a"
    using that by (simp add: divide_less_0_iff)
  have down: "(t - b) / (a - b) < 0 \<or> 1 < (t - b) / (a - b) \<longleftrightarrow> t < a \<or> b < t" if "a < b"
  proof -
    have "(t - b) / (a - b) = (b - t) / (b - a)"
      by (metis minus_diff_eq minus_divide_divide)
    moreover have "(b - t) / (b - a) < 0 \<or> 1 < (b - t) / (b - a) \<longleftrightarrow> b < t \<or> t < a"
      using that by (simp add: divide_less_0_iff)
    ultimately show ?thesis by auto
  qed
  have "(t - b) / (a - b) < 0 \<or> 1 < (t - b) / (a - b) \<longleftrightarrow> t < min a b \<or> max a b < t"
    if "a \<noteq> b"
  proof (cases "b < a")
    case True
    then show ?thesis using up by (auto simp: min_def max_def)
  next
    case False
    with that have "a < b" by simp
    then show ?thesis using down by (auto simp: min_def max_def)
  qed
  moreover have "(t - b) / (a - b) < 0 \<or> 1 < (t - b) / (a - b)" if "b < a" "a < t \<or> t < b"
    using that up by blast
  ultimately show ?thesis
    by (auto simp: bid_ask_bounce_def)
qed

text \<open>
  C8 amended, at bid 1 and ask 2, at the crossed quote bid 2 and ask 1, and at a locked
  quote.
\<close>

theorem bid_ask_bounce_raw_witness:
  "bid_ask_bounce 1 1 2 = Some 0 \<and> bid_ask_bounce 2 1 2 = Some 1 \<and>
   bid_ask_bounce 3 1 2 = Some 2 \<and> bid_ask_bounce 0 1 2 = Some (- 1) \<and>
   bid_ask_bounce 3 2 1 = Some (- 1) \<and> bid_ask_bounce 0 2 1 = Some 2 \<and>
   bid_ask_bounce 3 1 1 = None"
  using bid_ask_bounce_raw [of 2 1 3] bid_ask_bounce_raw [of 2 1 0]
    bid_ask_bounce_raw [of 1 2 3] bid_ask_bounce_raw [of 1 2 0] bid_ask_bounce_raw [of 1 1 3]
  by (simp add: bid_ask_bounce_def)

text \<open>
  C9 as stated fails for a single observation of volume zero: the volumes sum to zero, so
  VWAP is undefined and not the observation's price.
\<close>

theorem single_observation_counterexample:
  "sum_list (map snd [(5, 0 :: real)]) = 0 \<and> vwap [(5, 0)] = None \<and> vwap [(5, 0)] \<noteq> Some 5"
  by (simp add: vwap_def)

text \<open>
  C9, amended. Over a window of exactly one observation, TWAP equals the observation's
  price regardless of its duration, and VWAP equals the observation's price regardless
  of its volume as long as the volume is not zero; with volume zero VWAP is undefined.
\<close>

theorem single_observation_average:
  "twap [(price, dt)] = Some price \<and>
   (volume \<noteq> 0 \<longrightarrow> vwap [(price, volume)] = Some price) \<and>
   vwap [(price, 0)] = None"
  by (simp add: vwap_def twap_def)

text \<open>
  C9 amended, at the price 5: TWAP with durations 7 and 0, VWAP with volumes 3 and 0.
\<close>

theorem single_observation_average_witness:
  "twap [(5, 7)] = Some 5 \<and> twap [(5, 0)] = Some 5 \<and>
   vwap [(5, 3)] = Some 5 \<and> vwap [(5, 0)] = None"
  using single_observation_average [of 5 7 3] single_observation_average [of 5 0 3]
  by simp

end
